theory Spec2Isabelle
  imports Complex_Main "HOL-Library.AList" "HOL-Library.Sublist"
begin

section \<open>The budget-constrained furniture combination optimizer\<close>

text \<open>
  A shallow embedding of \<^verbatim>\<open>furniture_combination_optimizer.py\<close>
  (class \<^verbatim>\<open>FurnitureCombinationOptimizer\<close> and \<^verbatim>\<open>main\<close>).

  Numbers. Prices, similarity scores and the budget are Python numbers (ints and floats).
  They are modelled as exact rationals: sums, differences and comparisons are the
  mathematical ones, and binary floating-point rounding, NaN and the infinities are outside
  the model.

  Cells. What pandas reads from a column of \<^verbatim>\<open>similarity_results.csv\<close> is a number, or a
  string when the column is not numeric. The candidate record is therefore parametric in
  the type of the similarity score: \<open>rat\<close> for a store of numbers, on which the \<^verbatim>\<open>try\<close>
  block of \<^verbatim>\<open>generate_combinations\<close> raises nothing, and \<open>cell\<close> for the store as the
  loader leaves it, on which adding a string to the running total raises \<^verbatim>\<open>TypeError\<close>.

  Exceptions. Every \<^verbatim>\<open>try ... except Exception\<close> of the source is a branch of the model:
  the loader returns \<^verbatim>\<open>False\<close> with the store as far as it was filled, the enumerator
  returns the empty list, the price loader returns the estimated prices.

  Dictionaries. A Python \<^verbatim>\<open>dict\<close> keeps its keys in insertion order. It is modelled
  as an association list read with \<open>map_of\<close> and written with \<open>AList.update\<close>,
  which replaces the value of a key in place and appends a new key at the end, as dict
  assignment does.
\<close>

subsection \<open>Data\<close>

type_synonym catalog_id = string

text \<open>One entry of a category's candidate list, as \<^verbatim>\<open>load_similarity_results\<close> builds it.\<close>

datatype cell = Num rat | Text string

record 's candidate =
  catalog_number :: catalog_id
  similarity_score :: 's
  rank :: int

text \<open>An entry of \<^verbatim>\<open>combination_details\<close>: the candidate with its category and price.\<close>

record combination_item = "rat candidate" +
  furniture_type :: string
  price :: rat

record combination =
  total_price :: rat
  total_similarity :: rat
  items :: "combination_item list"
  budget_remaining :: rat

type_synonym price_dict = "(catalog_id \<times> rat) list"

text \<open>The attributes of the optimizer object that the methods read and write.\<close>

record 's optimizer =
  similarity_results :: "(string \<times> 's candidate list) list"
  budget :: rat
  query_number :: "int option"

definition dict_get :: "('k \<times> 'v) list \<Rightarrow> 'k \<Rightarrow> 'v \<Rightarrow> 'v" where
  \<comment> \<open>\<^verbatim>\<open>d.get(k, default)\<close>\<close>
  "dict_get d k dflt = (case map_of d k of Some v \<Rightarrow> v | None \<Rightarrow> dflt)"

definition dict_keys :: "('k \<times> 'v) list \<Rightarrow> 'k list" where
  \<comment> \<open>\<^verbatim>\<open>list(d.keys())\<close>\<close>
  "dict_keys d = map fst d"

subsection \<open>The fallback price estimator\<close>

definition lower_char :: "char \<Rightarrow> char" where
  "lower_char c =
     (let n = (of_char c :: nat) in if 65 \<le> n \<and> n \<le> 90 then char_of (n + 32) else c)"

definition lower :: "string \<Rightarrow> string" where
  \<comment> \<open>\<^verbatim>\<open>str.lower()\<close> on the ASCII letters. The result is only compared with the keys
     of the range table, which are lower-case ASCII words; a name with a character
     outside ASCII equals none of them, before or after Python lowers it.\<close>
  "lower s = map lower_char s"

definition price_ranges :: "(string \<times> (int \<times> int)) list" where
  "price_ranges =
     [(''sofa'', (800, 2500)),
      (''chair'', (200, 800)),
      (''table'', (300, 1200)),
      (''lamp'', (100, 400)),
      (''rug'', (200, 800)),
      (''bench'', (300, 1000)),
      (''nightstand'', (150, 600)),
      (''lighting'', (100, 400))]"

definition range_for :: "string \<Rightarrow> int \<times> int" where
  \<comment> \<open>the \<^verbatim>\<open>if base_type in price_ranges ... else 200, 800\<close> of the estimator\<close>
  "range_for ftype =
     (let base_type = lower ftype
      in case map_of price_ranges base_type of Some r \<Rightarrow> r | None \<Rightarrow> (200, 800))"

definition round_half_even :: "rat \<Rightarrow> int" where
  "round_half_even y =
     (let f = \<lfloor>y\<rfloor>; d = y - of_int f
      in if d < 1 / 2 then f else if 1 / 2 < d then f + 1 else if even f then f else f + 1)"

definition round2 :: "rat \<Rightarrow> rat" where
  \<comment> \<open>\<^verbatim>\<open>round(x, 2)\<close>: the nearest multiple of 1/100, a tie going to the even one\<close>
  "round2 x = of_int (round_half_even (x * 100)) / 100"

definition get_estimated_price_for_type :: "string \<Rightarrow> int \<Rightarrow> rat" where
  "get_estimated_price_for_type ftype rnk =
     (let (min_price, max_price) = range_for ftype;
          rank_factor = (4 - of_int rnk) / 3;
          price_range = max_price - min_price;
          estimated_price = of_int min_price + of_int price_range * rank_factor
      in round2 estimated_price)"

fun estimate_items :: "string \<Rightarrow> nat \<Rightarrow> 's candidate list \<Rightarrow> price_dict \<Rightarrow> price_dict" where
  \<comment> \<open>the inner loop \<^verbatim>\<open>for i, item in enumerate(items)\<close>, entered at index \<open>i\<close>\<close>
  "estimate_items ftype i [] price_lookup = price_lookup"
| "estimate_items ftype i (item # rest) price_lookup =
     estimate_items ftype (Suc i) rest
       (AList.update (catalog_number item)
          (get_estimated_price_for_type ftype (int i)) price_lookup)"

fun estimate_types ::
  "(string \<times> 's candidate list) list \<Rightarrow> price_dict \<Rightarrow> price_dict" where
  \<comment> \<open>the outer loop over \<^verbatim>\<open>self.similarity_results.items()\<close>\<close>
  "estimate_types [] price_lookup = price_lookup"
| "estimate_types ((ftype, its) # rest) price_lookup =
     estimate_types rest (estimate_items ftype 0 its price_lookup)"

definition get_estimated_prices :: "'s optimizer \<Rightarrow> price_dict" where
  "get_estimated_prices st = estimate_types (similarity_results st) []"

subsection \<open>Enumeration, budget filter and ranking\<close>

definition candidate_lists :: "'s optimizer \<Rightarrow> 's candidate list list" where
  \<comment> \<open>\<^verbatim>\<open>[self.similarity_results[ft] for ft in furniture_types]\<close>; every \<open>ft\<close> is a key,
     so the lookup never misses\<close>
  "candidate_lists st =
     map (\<lambda>ft. dict_get (similarity_results st) ft [])
       (dict_keys (similarity_results st))"

fun accumulate ::
  "price_dict \<Rightarrow> (string \<times> rat candidate) list \<Rightarrow> rat \<times> rat \<times> combination_item list
     \<Rightarrow> rat \<times> rat \<times> combination_item list" where
  \<comment> \<open>the loop \<^verbatim>\<open>for i, item in enumerate(combination)\<close>; a tuple of the product is as long
     as \<^verbatim>\<open>furniture_types\<close>, so \<^verbatim>\<open>furniture_types[i]\<close> is the category zipped to the item\<close>
  "accumulate price_lookup [] acc = acc"
| "accumulate price_lookup ((ftype, item) # rest) (tp, ts, details) =
     (let pr = dict_get price_lookup (catalog_number item) 0
      in accumulate price_lookup rest
           (tp + pr, ts + similarity_score item,
            details @ [\<lparr>catalog_number = catalog_number item,
                        similarity_score = similarity_score item,
                        rank = rank item,
                        furniture_type = ftype,
                        price = pr\<rparr>]))"

definition evaluate ::
  "rat optimizer \<Rightarrow> price_dict \<Rightarrow> rat candidate list
     \<Rightarrow> rat \<times> rat \<times> combination_item list" where
  \<comment> \<open>the totals and details computed for one tuple of the product, before the budget test\<close>
  "evaluate st price_lookup combo =
     accumulate price_lookup (zip (dict_keys (similarity_results st)) combo) (0, 0, [])"

definition raw_combinations ::
  "rat optimizer \<Rightarrow> price_dict \<Rightarrow> (rat \<times> rat \<times> combination_item list) list" where
  \<comment> \<open>every tuple of \<^verbatim>\<open>itertools.product\<close>, evaluated, in the order the loop visits them\<close>
  "raw_combinations st price_lookup =
     map (evaluate st price_lookup) (product_lists (candidate_lists st))"

fun enumerate_loop ::
  "rat optimizer \<Rightarrow> price_dict \<Rightarrow> rat candidate list list \<Rightarrow> combination list
     \<Rightarrow> combination list" where
  \<comment> \<open>the loop over the product, appending the combinations within budget\<close>
  "enumerate_loop st price_lookup [] combinations = combinations"
| "enumerate_loop st price_lookup (combo # rest) combinations =
     (case evaluate st price_lookup combo of
        (tp, ts, details) \<Rightarrow>
          if tp \<le> budget st \<and> tp > 0
          then enumerate_loop st price_lookup rest
                 (combinations @ [\<lparr>total_price = tp, total_similarity = ts,
                                    items = details, budget_remaining = budget st - tp\<rparr>])
          else enumerate_loop st price_lookup rest combinations)"

definition within_budget :: "rat optimizer \<Rightarrow> price_dict \<Rightarrow> combination list" where
  \<comment> \<open>the list \<^verbatim>\<open>combinations\<close> when the loop ends, before it is sorted\<close>
  "within_budget st price_lookup =
     enumerate_loop st price_lookup (product_lists (candidate_lists st)) []"

definition sort_by_similarity :: "combination list \<Rightarrow> combination list" where
  \<comment> \<open>\<^verbatim>\<open>combinations.sort(key=lambda x: x['total_similarity'], reverse=True)\<close>: a stable
     sort, largest key first; with \<^verbatim>\<open>reverse=True\<close> equal keys keep their order\<close>
  "sort_by_similarity cs = sort_key (\<lambda>c. - total_similarity c) cs"

definition generate_combinations :: "rat optimizer \<Rightarrow> price_dict \<Rightarrow> combination list" where
  \<comment> \<open>on a store of numbers: nothing in the \<^verbatim>\<open>try\<close> block raises, the \<^verbatim>\<open>except\<close> is not taken\<close>
  "generate_combinations st price_lookup = sort_by_similarity (within_budget st price_lookup)"

subsection \<open>The enumeration on the cells of a loaded store\<close>

text \<open>
  The same loops on a store whose similarity scores are cells. \<^verbatim>\<open>total_similarity +=
  similarity_score\<close> raises \<^verbatim>\<open>TypeError\<close> on a string; \<open>None\<close> is the raised exception,
  which leaves both loops at once.
\<close>

fun accumulate_cells ::
  "price_dict \<Rightarrow> (string \<times> cell candidate) list \<Rightarrow> rat \<times> rat \<times> combination_item list
     \<Rightarrow> (rat \<times> rat \<times> combination_item list) option" where
  "accumulate_cells price_lookup [] acc = Some acc"
| "accumulate_cells price_lookup ((ftype, item) # rest) (tp, ts, details) =
     (let pr = dict_get price_lookup (catalog_number item) 0
      in case similarity_score item of
           Text s \<Rightarrow> None
         | Num s \<Rightarrow>
             accumulate_cells price_lookup rest
               (tp + pr, ts + s,
                details @ [\<lparr>catalog_number = catalog_number item,
                            similarity_score = s,
                            rank = rank item,
                            furniture_type = ftype,
                            price = pr\<rparr>]))"

definition evaluate_cells ::
  "cell optimizer \<Rightarrow> price_dict \<Rightarrow> cell candidate list
     \<Rightarrow> (rat \<times> rat \<times> combination_item list) option" where
  "evaluate_cells st price_lookup combo =
     accumulate_cells price_lookup (zip (dict_keys (similarity_results st)) combo) (0, 0, [])"

fun enumerate_cells ::
  "cell optimizer \<Rightarrow> price_dict \<Rightarrow> cell candidate list list \<Rightarrow> combination list
     \<Rightarrow> combination list option" where
  "enumerate_cells st price_lookup [] combinations = Some combinations"
| "enumerate_cells st price_lookup (combo # rest) combinations =
     (case evaluate_cells st price_lookup combo of
        None \<Rightarrow> None
      | Some (tp, ts, details) \<Rightarrow>
          if tp \<le> budget st \<and> tp > 0
          then enumerate_cells st price_lookup rest
                 (combinations @ [\<lparr>total_price = tp, total_similarity = ts,
                                    items = details, budget_remaining = budget st - tp\<rparr>])
          else enumerate_cells st price_lookup rest combinations)"

definition generate_combinations_cells ::
  "cell optimizer \<Rightarrow> price_dict \<Rightarrow> combination list" where
  \<comment> \<open>\<^verbatim>\<open>generate_combinations\<close> with its \<^verbatim>\<open>except Exception: return []\<close>\<close>
  "generate_combinations_cells st price_lookup =
     (case enumerate_cells st price_lookup (product_lists (candidate_lists st)) [] of
        None \<Rightarrow> []
      | Some combinations \<Rightarrow> sort_by_similarity combinations)"

subsection \<open>Loading the candidate lists\<close>

text \<open>
  A row of \<^verbatim>\<open>similarity_results.csv\<close>, with the cells the loader reads. The image name is
  \<open>None\<close> when the cell holds no string (an empty cell is read as NaN), on which
  \<^verbatim>\<open>image_name.replace\<close> raises.
\<close>

record 's similarity_row = "'s candidate" +
  image_name :: "string option"

text \<open>The data frame \<^verbatim>\<open>pd.read_csv\<close> returns: the names of its columns and its rows.\<close>

record 's frame =
  columns :: "string list"
  rows :: "'s similarity_row list"

text \<open>
  The results file: absent (\<^verbatim>\<open>os.path.exists\<close> is false), one on which \<^verbatim>\<open>pd.read_csv\<close>
  raises, or one it reads.
\<close>

datatype 's results_file = NoFile | Unreadable | Frame "'s frame"

fun unique_from :: "'a list \<Rightarrow> 'a list \<Rightarrow> 'a list" where
  "unique_from seen [] = []"
| "unique_from seen (x # xs) =
     (if x \<in> set seen then unique_from seen xs else x # unique_from (x # seen) xs)"

definition unique :: "'a list \<Rightarrow> 'a list" where
  \<comment> \<open>\<^verbatim>\<open>Series.unique()\<close>: the distinct values in the order of their first appearance\<close>
  "unique xs = unique_from [] xs"

function str_remove :: "string \<Rightarrow> string \<Rightarrow> string" where
  \<comment> \<open>\<^verbatim>\<open>s.replace(old, '')\<close>: every occurrence of \<open>old\<close>, found from the left, is dropped\<close>
  "str_remove old [] = []"
| "str_remove old (c # cs) =
     (if old \<noteq> [] \<and> prefix old (c # cs)
      then str_remove old (drop (length old) (c # cs))
      else c # str_remove old cs)"
  by pat_completeness auto
termination
  by (relation "measure (\<lambda>(old, s). length s)") (auto simp: neq_Nil_conv)

definition furniture_type_of :: "string \<Rightarrow> string" where
  "furniture_type_of name = str_remove ''_extracted_grayscale.png'' name"

definition row_candidate :: "'s similarity_row \<Rightarrow> 's candidate" where
  "row_candidate r =
     \<lparr>catalog_number = catalog_number r, similarity_score = similarity_score r, rank = rank r\<rparr>"

definition df_empty :: "'s frame \<Rightarrow> bool" where
  \<comment> \<open>\<^verbatim>\<open>df.empty\<close>: no rows, or no columns\<close>
  "df_empty df = (rows df = [] \<or> columns df = [])"

definition has_candidate_columns :: "'s frame \<Rightarrow> bool" where
  \<comment> \<open>whether \<^verbatim>\<open>row['catalog_number']\<close>, \<^verbatim>\<open>row['similarity_score']\<close> and \<^verbatim>\<open>row['rank']\<close>
     find their columns; otherwise the first of them raises \<^verbatim>\<open>KeyError\<close>\<close>
  "has_candidate_columns df =
     list_all (\<lambda>c. c \<in> set (columns df)) [''catalog_number'', ''similarity_score'', ''rank'']"

fun load_loop ::
  "'s frame \<Rightarrow> string option list \<Rightarrow> (string \<times> 's candidate list) list
     \<Rightarrow> bool \<times> (string \<times> 's candidate list) list" where
  \<comment> \<open>the loop over the image names: the first three rows of each become its category's
     list. The result is whether the loop ran to its end, and the store: at an exception
     the store stays as far as it was filled, the category at hand with an empty list.\<close>
  "load_loop df [] results = (True, results)"
| "load_loop df (None # rest) results = (False, results)"
| "load_loop df (Some name # rest) results =
     (let furniture_results = take 3 (filter (\<lambda>r. image_name r = Some name) (rows df))
      in if furniture_results \<noteq> [] \<and> \<not> has_candidate_columns df
         then (False, AList.update (furniture_type_of name) [] results)
         else load_loop df rest
                (AList.update (furniture_type_of name)
                   (map row_candidate furniture_results) results))"

definition load_similarity_results ::
  "'s results_file \<Rightarrow> 's optimizer \<Rightarrow> bool \<times> 's optimizer" where
  "load_similarity_results file st =
     (case file of
        NoFile \<Rightarrow> (False, st)
      | Unreadable \<Rightarrow> (False, st)
      | Frame df \<Rightarrow>
          if df_empty df then (False, st)
          else if ''image_name'' \<notin> set (columns df)
          then (False, st\<lparr>similarity_results := []\<rparr>)
          else
            (case load_loop df (unique (map image_name (rows df))) [] of
               (ok, results) \<Rightarrow> (ok, st\<lparr>similarity_results := results\<rparr>)))"

subsection \<open>Resolving prices\<close>

text \<open>
  The master catalog is the list of its rows, each a catalog number and its parsed price:
  \<open>None\<close> for a price cell that is empty, \<^verbatim>\<open>nan\<close> or not a number, which the loader skips.
  \<open>None\<close> for the catalog stands for a file that is missing or cannot be read; both paths
  return the estimated prices.
\<close>

fun catalog_loop :: "(catalog_id \<times> rat option) list \<Rightarrow> price_dict \<Rightarrow> price_dict" where
  "catalog_loop [] price_lookup = price_lookup"
| "catalog_loop ((num, Some p) # rest) price_lookup =
     catalog_loop rest (AList.update num p price_lookup)"
| "catalog_loop ((num, None) # rest) price_lookup = catalog_loop rest price_lookup"

definition all_candidates :: "'s optimizer \<Rightarrow> 's candidate list" where
  "all_candidates st = concat (map snd (similarity_results st))"

definition matched_items :: "'s optimizer \<Rightarrow> price_dict \<Rightarrow> nat" where
  "matched_items st price_lookup =
     length (filter (\<lambda>item. catalog_number item \<in> set (dict_keys price_lookup))
               (all_candidates st))"

definition get_furniture_prices ::
  "'s optimizer \<Rightarrow> (catalog_id \<times> rat option) list option \<Rightarrow> price_dict" where
  "get_furniture_prices st catalog =
     (case catalog of
        None \<Rightarrow> get_estimated_prices st
      | Some entries \<Rightarrow>
          let price_lookup = catalog_loop entries []
          in if matched_items st price_lookup = 0 then get_estimated_prices st
             else price_lookup)"

subsection \<open>Writing the result and the run as a whole\<close>

record csv_row = combination_item +
  combination_rank :: nat
  row_total_price :: rat
  row_total_similarity :: rat
  row_budget_remaining :: rat

definition item_row :: "nat \<Rightarrow> combination \<Rightarrow> combination_item \<Rightarrow> csv_row" where
  "item_row n c it =
     \<lparr>catalog_number = catalog_number it, similarity_score = similarity_score it,
      rank = rank it, furniture_type = furniture_type it, price = price it,
      combination_rank = n, row_total_price = total_price c,
      row_total_similarity = total_similarity c,
      row_budget_remaining = budget_remaining c\<rparr>"

fun rows_from :: "nat \<Rightarrow> combination list \<Rightarrow> csv_row list" where
  \<comment> \<open>\<^verbatim>\<open>for rank, combination in enumerate(combinations, n)\<close>, one row for each item\<close>
  "rows_from n [] = []"
| "rows_from n (c # cs) = map (item_row n c) (items c) @ rows_from (Suc n) cs"

definition save_combinations_to_csv :: "combination list \<Rightarrow> csv_row list" where
  "save_combinations_to_csv combinations = rows_from 1 combinations"

text \<open>
  What a run leaves behind: the line \<^verbatim>\<open>main\<close> prints when it stops (without its leading
  symbol), the value written to \<^verbatim>\<open>selected_sufficed\<close> in the master log, if any, and the
  rows written to \<^verbatim>\<open>furniture_combinations.csv\<close>, if the file was written. \<^verbatim>\<open>main\<close>
  returns \<^verbatim>\<open>None\<close> on every path.
\<close>

record run_result =
  message :: string
  status_written :: "string option"
  csv_written :: "csv_row list option"


text \<open>
  \<^verbatim>\<open>main\<close>. Its first argument is what \<^verbatim>\<open>check_master_query_log\<close> found in the master log:
  the number of the latest pending query and its budget as \<^verbatim>\<open>parse_budget\<close> returned it
  (0 for a budget that does not parse), or \<open>None\<close>. Reading the log and parsing the
  budget string are not modelled.
\<close>

definition main ::
  "(int \<times> rat) option \<Rightarrow> cell results_file
     \<Rightarrow> (catalog_id \<times> rat option) list option \<Rightarrow> run_result" where
  "main pending file catalog =
     (case pending of
        None \<Rightarrow>
          \<lparr>message = ''No queries pending combination optimization'',
           status_written = None, csv_written = None\<rparr>
      | Some (q, b) \<Rightarrow>
          if q = 0
          then \<lparr>message = ''No queries pending combination optimization'',
                status_written = None, csv_written = None\<rparr>
          else
            (case load_similarity_results file
                    \<lparr>similarity_results = [], budget = b, query_number = Some q\<rparr> of
               (False, st) \<Rightarrow>
                 \<lparr>message = ''Failed to load similarity results'',
                  status_written = None, csv_written = None\<rparr>
             | (True, st) \<Rightarrow>
                 let price_lookup = get_furniture_prices st catalog
                 in if price_lookup = []
                    then \<lparr>message = ''Failed to load furniture prices'',
                          status_written = None, csv_written = None\<rparr>
                    else
                      let combinations = generate_combinations_cells st price_lookup
                      in if combinations = []
                         then \<lparr>message = ''No combinations found within budget'',
                               status_written = Some ''no'', csv_written = None\<rparr>
                         else \<lparr>message = ''SUCCESS!'', status_written = Some ''yes'',
                               csv_written =
                                 Some (save_combinations_to_csv combinations)\<rparr>))"

subsection \<open>The writer of the results file\<close>

text \<open>
  From \<^verbatim>\<open>furniture_similarity_search.py\<close>. \<^verbatim>\<open>process_query_images\<close> keeps the items found
  for an image only when there are any, and \<^verbatim>\<open>save_results_to_csv\<close> writes one row for
  each item kept, ranked from 1 within its image. An item is its catalog number and its
  score.
\<close>

fun process_query_images ::
  "(string \<times> (catalog_id \<times> 's) list) list \<Rightarrow> (string \<times> (catalog_id \<times> 's) list) list
     \<Rightarrow> (string \<times> (catalog_id \<times> 's) list) list" where
  \<comment> \<open>the loop over the images, given what the search found for each\<close>
  "process_query_images [] results = results"
| "process_query_images ((name, similar_items) # rest) results =
     (if similar_items \<noteq> []
      then process_query_images rest (AList.update name similar_items results)
      else process_query_images rest results)"

fun item_rows :: "string \<Rightarrow> nat \<Rightarrow> (catalog_id \<times> 's) list \<Rightarrow> 's similarity_row list" where
  \<comment> \<open>\<^verbatim>\<open>for i, item in enumerate(similar_items, i)\<close>\<close>
  "item_rows name i [] = []"
| "item_rows name i ((num, score) # rest) =
     \<lparr>catalog_number = num, similarity_score = score, rank = int i,
      image_name = Some name\<rparr> # item_rows name (Suc i) rest"

definition save_results_to_csv :: "(string \<times> (catalog_id \<times> 's) list) list \<Rightarrow> 's frame" where
  "save_results_to_csv results =
     \<lparr>columns = [''query_number'', ''image_name'', ''rank'', ''catalog_number'',
                  ''similarity_score'', ''item_name'', ''item_type'', ''price'', ''color'',
                  ''image_url'', ''link''],
      rows = concat (map (\<lambda>(name, similar_items). item_rows name 1 similar_items) results)\<rparr>"

subsection \<open>Notions used to state the properties\<close>

text \<open>The entry the inner loop appends for a category and its candidate.\<close>

definition resolve :: "price_dict \<Rightarrow> string \<times> rat candidate \<Rightarrow> combination_item" where
  "resolve price_lookup z =
     \<lparr>catalog_number = catalog_number (snd z), similarity_score = similarity_score (snd z),
      rank = rank (snd z), furniture_type = fst z,
      price = dict_get price_lookup (catalog_number (snd z)) 0\<rparr>"

text \<open>The budget test of the loop, on the totals of an evaluated tuple.\<close>

definition affordable :: "'s optimizer \<Rightarrow> rat \<times> rat \<times> combination_item list \<Rightarrow> bool" where
  "affordable st t = (fst t \<le> budget st \<and> fst t > 0)"

text \<open>The combination the loop appends for an evaluated tuple that passes the test.\<close>

definition emit :: "'s optimizer \<Rightarrow> rat \<times> rat \<times> combination_item list \<Rightarrow> combination" where
  "emit st t =
     \<lparr>total_price = fst t, total_similarity = fst (snd t), items = snd (snd t),
      budget_remaining = budget st - fst t\<rparr>"

subsection \<open>Scenario A: two sofas and a table, budget 1600\<close>

definition S1 :: "rat candidate" where
  "S1 = \<lparr>catalog_number = ''S1'', similarity_score = 9/10, rank = 1\<rparr>"

definition S2 :: "rat candidate" where
  "S2 = \<lparr>catalog_number = ''S2'', similarity_score = 8/10, rank = 2\<rparr>"

definition T1 :: "rat candidate" where
  "T1 = \<lparr>catalog_number = ''T1'', similarity_score = 7/10, rank = 1\<rparr>"

definition scenario_A :: "rat optimizer" where
  "scenario_A = \<lparr>similarity_results = [(''sofa'', [S1, S2]), (''table'', [T1])],
                  budget = 1600, query_number = Some 1\<rparr>"

text \<open>The prices of the scenario, every catalog number resolved.\<close>

definition prices_A :: price_dict where
  "prices_A = [(''S1'', 1000), (''S2'', 1200), (''T1'', 500)]"

text \<open>The combination of S1 and T1.\<close>

definition combination_A :: combination where
  "combination_A = \<lparr>total_price = 1500, total_similarity = 8 / 5,
     items =
       [\<lparr>catalog_number = ''S1'', similarity_score = 9 / 10, rank = 1,
           furniture_type = ''sofa'', price = 1000\<rparr>,
        \<lparr>catalog_number = ''T1'', similarity_score = 7 / 10, rank = 1,
           furniture_type = ''table'', price = 500\<rparr>],
     budget_remaining = 100\<rparr>"

subsection \<open>Scenario C: two categories of three candidates\<close>

definition sofas_C :: "rat candidate list" where
  "sofas_C = [\<lparr>catalog_number = ''S1'', similarity_score = 9/10, rank = 1\<rparr>,
              \<lparr>catalog_number = ''S2'', similarity_score = 8/10, rank = 2\<rparr>,
              \<lparr>catalog_number = ''S3'', similarity_score = 6/10, rank = 3\<rparr>]"

definition tables_C :: "rat candidate list" where
  "tables_C = [\<lparr>catalog_number = ''T1'', similarity_score = 7/10, rank = 1\<rparr>,
               \<lparr>catalog_number = ''T2'', similarity_score = 5/10, rank = 2\<rparr>,
               \<lparr>catalog_number = ''T3'', similarity_score = 4/10, rank = 3\<rparr>]"

definition scenario_C :: "rat optimizer" where
  "scenario_C = \<lparr>similarity_results = [(''sofa'', sofas_C), (''table'', tables_C)],
                  budget = 2000, query_number = Some 1\<rparr>"

definition prices_C :: price_dict where
  "prices_C = [(''S1'', 1000), (''S2'', 1200), (''S3'', 900),
               (''T1'', 500), (''T2'', 400), (''T3'', 300)]"

subsection \<open>A price dictionary with gaps\<close>

text \<open>Whether the price dictionary has an entry for a candidate's catalog number.\<close>

definition known :: "price_dict \<Rightarrow> rat candidate \<Rightarrow> bool" where
  "known price_lookup item = (catalog_number item \<in> set (dict_keys price_lookup))"

text \<open>The candidates of scenario A with a catalog that prices S1 only.\<close>

definition scenario_gap :: "rat optimizer" where
  "scenario_gap = \<lparr>similarity_results = [(''sofa'', [S1, S2]), (''table'', [T1])],
                    budget = 1600, query_number = Some 1\<rparr>"

definition prices_gap :: price_dict where
  "prices_gap = [(''S1'', 1000)]"

subsection \<open>Inputs of a whole run\<close>

text \<open>
  The optimizer when \<^verbatim>\<open>main\<close> starts loading: no candidates yet, the budget and the query
  number as \<^verbatim>\<open>check_master_query_log\<close> stored them.
\<close>

definition fresh :: "int \<Rightarrow> rat \<Rightarrow> 's optimizer" where
  "fresh q b = \<lparr>similarity_results = [], budget = b, query_number = Some q\<rparr>"

text \<open>
  A frame on which the loader raises nothing and does not stop early: it has rows and
  columns, the image name column, the three candidate columns, and a string in every
  image name cell.
\<close>

definition well_formed :: "'s frame \<Rightarrow> bool" where
  "well_formed df =
     (rows df \<noteq> [] \<and> columns df \<noteq> [] \<and> ''image_name'' \<in> set (columns df)
      \<and> has_candidate_columns df \<and> list_all (\<lambda>r. image_name r \<noteq> None) (rows df))"


text \<open>
  What the search found for the images of a query: two sofas for the sofa image, nothing
  for the table image. The results file is the one the writer makes of it.
\<close>

definition found_A :: "(string \<times> (catalog_id \<times> cell) list) list" where
  "found_A =
     [(''sofa_extracted_grayscale.png'', [(''S1'', Num (9/10)), (''S2'', Num (8/10))]),
      (''table_extracted_grayscale.png'', [])]"

definition file_A :: "cell results_file" where
  "file_A = Frame (save_results_to_csv (process_query_images found_A []))"

text \<open>The store the loader makes of that file.\<close>

definition sofas_A :: "cell candidate list" where
  "sofas_A = [\<lparr>catalog_number = ''S1'', similarity_score = Num (9/10), rank = 1\<rparr>,
              \<lparr>catalog_number = ''S2'', similarity_score = Num (8/10), rank = 2\<rparr>]"



text \<open>A master catalog that prices the three items of scenario A.\<close>

definition catalog_A :: "(catalog_id \<times> rat option) list" where
  "catalog_A = [(''S1'', Some 1000), (''S2'', Some 1200), (''T1'', Some 500)]"

subsection \<open>A store of numbers as a store of cells\<close>

definition num_candidate :: "rat candidate \<Rightarrow> cell candidate" where
  "num_candidate c =
     \<lparr>catalog_number = catalog_number c, similarity_score = Num (similarity_score c),
      rank = rank c\<rparr>"

definition as_cells :: "rat optimizer \<Rightarrow> cell optimizer" where
  "as_cells st =
     \<lparr>similarity_results = map (\<lambda>(ft, its). (ft, map num_candidate its)) (similarity_results st),
      budget = budget st, query_number = query_number st\<rparr>"

subsection \<open>The estimate in the words of the specification\<close>

text \<open>
  \<open>rank_factor = (K - rank + 1) / K\<close> and
  \<open>estimated_price = min_price + (max_price - min_price) * rank_factor\<close>, for a 1-based rank.
\<close>

definition spec_estimated_price :: "int \<Rightarrow> int \<Rightarrow> int \<Rightarrow> int \<Rightarrow> rat" where
  "spec_estimated_price min_price max_price K r =
     of_int min_price + of_int (max_price - min_price) * (of_int (K - r + 1) / of_int K)"

subsection \<open>The order of enumeration\<close>

text \<open>
  The tuples of positions, one position for each list, in the order of \<open>product_lists\<close>;
  the tuple of elements at given positions; and the lexicographic order on tuples of
  positions, the first position being the most significant.
\<close>

definition positions :: "'a list list \<Rightarrow> nat list list" where
  "positions xss = product_lists (map (\<lambda>xs. [0..<length xs]) xss)"

definition pick :: "'a list list \<Rightarrow> nat list \<Rightarrow> 'a list" where
  "pick xss ns = map (\<lambda>(xs, n). xs ! n) (zip xss ns)"

definition earlier :: "nat list \<Rightarrow> nat list \<Rightarrow> bool" where
  "earlier ms ns = ((ms, ns) \<in> lexord {(m, n). m < n})"

section \<open>The loops in closed form\<close>

lemma accumulate_eq:
  "accumulate pl zs (tp, ts, ds) =
     (tp + sum_list (map (\<lambda>z. dict_get pl (catalog_number (snd z)) 0) zs),
      ts + sum_list (map (\<lambda>z. similarity_score (snd z)) zs),
      ds @ map (resolve pl) zs)"
  by (induction zs arbitrary: tp ts ds) (auto simp: resolve_def Let_def)

lemma evaluate_eq:
  "evaluate st pl combo =
     (sum_list (map (\<lambda>z. dict_get pl (catalog_number (snd z)) 0)
                 (zip (dict_keys (similarity_results st)) combo)),
      sum_list (map (\<lambda>z. similarity_score (snd z))
                 (zip (dict_keys (similarity_results st)) combo)),
      map (resolve pl) (zip (dict_keys (similarity_results st)) combo))"
  by (simp add: evaluate_def accumulate_eq)

lemma enumerate_loop_eq:
  "enumerate_loop st pl combos acc =
     acc @ map (emit st) (filter (affordable st) (map (evaluate st pl) combos))"
  by (induction combos arbitrary: acc)
     (auto simp: affordable_def emit_def split: prod.splits)

lemma within_budget_eq:
  "within_budget st pl = map (emit st) (filter (affordable st) (raw_combinations st pl))"
  by (simp add: within_budget_def raw_combinations_def enumerate_loop_eq)

lemma set_generate_combinations:
  "set (generate_combinations st pl) = emit st ` {t \<in> set (raw_combinations st pl). affordable st t}"
  by (auto simp: generate_combinations_def sort_by_similarity_def within_budget_eq)

lemma price_resolve: "price (resolve pl z) = dict_get pl (catalog_number (snd z)) 0"
  by (simp add: resolve_def)

lemma raw_total_price:
  "t \<in> set (raw_combinations st pl) \<Longrightarrow> fst t = sum_list (map price (snd (snd t)))"
  by (auto simp: raw_combinations_def evaluate_eq comp_def price_resolve)

lemma raw_item_price:
  "t \<in> set (raw_combinations st pl) \<Longrightarrow> it \<in> set (snd (snd t)) \<Longrightarrow>
     price it = dict_get pl (catalog_number it) 0"
  by (auto simp: raw_combinations_def evaluate_eq resolve_def)

lemma length_raw:
  "length (raw_combinations st pl) = prod_list (map length (candidate_lists st))"
  by (simp add: raw_combinations_def length_product_lists prod_list.eq_foldr)

lemma length_generate:
  "length (generate_combinations st pl) = length (filter (affordable st) (raw_combinations st pl))"
  by (simp add: generate_combinations_def sort_by_similarity_def within_budget_eq)

lemma candidate_lists_distinct:
  "distinct (dict_keys (similarity_results st)) \<Longrightarrow> candidate_lists st = map snd (similarity_results st)"
  by (auto simp: candidate_lists_def dict_keys_def dict_get_def)

section \<open>Properties of the enumerator\<close>

text \<open>
  C1. Every combination that \<^verbatim>\<open>generate_combinations\<close> returns has a total price that is
  positive and at most the budget; the total is the sum of the prices of its items, and
  each item's price is the one the price dictionary resolves for its catalog number
  (0 when the number is absent).
\<close>

theorem C1_emitted_within_budget:
  "c \<in> set (generate_combinations st pl) \<Longrightarrow>
     0 < total_price c \<and> total_price c \<le> budget st
     \<and> total_price c = sum_list (map price (items c))
     \<and> (\<forall>it \<in> set (items c). price it = dict_get pl (catalog_number it) 0)"
  unfolding set_generate_combinations
  by (auto simp: affordable_def emit_def dest: raw_total_price raw_item_price)

theorem C1_emitted_within_budget_witness:
  "combination_A \<in> set (generate_combinations scenario_A prices_A)
   \<and> (0 < total_price combination_A \<and> total_price combination_A \<le> budget scenario_A
     \<and> total_price combination_A = sum_list (map price (items combination_A))
     \<and> map price (items combination_A)
         = map (\<lambda>it. dict_get prices_A (catalog_number it) 0) (items combination_A))"
proof -
  have h: "combination_A \<in> set (generate_combinations scenario_A prices_A)"
    by code_simp
  show ?thesis using h C1_emitted_within_budget [OF h] by simp
qed

lemma length_filter_eq_iff: "length (filter P xs) = length xs \<longleftrightarrow> (\<forall>x \<in> set xs. P x)"
  using sum_length_filter_compl [of P xs] by (auto simp: filter_empty_conv)

text \<open>
  C2. The loop evaluates as many tuples as the product of the lengths of the categories'
  candidate lists; the returned list is at most that long, and exactly that long if and
  only if every evaluated tuple has a total price that is positive and at most the budget.
  The lists are those stored under the categories (the keys of a dict are distinct). Two
  categories of three candidates each give nine evaluated tuples, whatever the prices and
  the budget.
\<close>

theorem C2_combination_counts:
  "length (raw_combinations st pl) = prod_list (map length (candidate_lists st))
   \<and> length (generate_combinations st pl) \<le> prod_list (map length (candidate_lists st))
   \<and> (length (generate_combinations st pl) = prod_list (map length (candidate_lists st))
        \<longleftrightarrow> (\<forall>t \<in> set (raw_combinations st pl). 0 < fst t \<and> fst t \<le> budget st))
   \<and> (distinct (dict_keys (similarity_results st))
        \<longrightarrow> candidate_lists st = map snd (similarity_results st))
   \<and> (\<forall>a xs b ys. similarity_results st = [(a, xs), (b, ys)] \<and> a \<noteq> b
          \<and> length xs = 3 \<and> length ys = 3
        \<longrightarrow> length (raw_combinations st pl) = 9)"
proof -
  let ?raw = "raw_combinations st pl"
  let ?n = "prod_list (map length (candidate_lists st))"
  have a: "length ?raw = ?n" by (rule length_raw)
  have g: "length (generate_combinations st pl) = length (filter (affordable st) ?raw)"
    by (rule length_generate)
  have b: "length (generate_combinations st pl) \<le> ?n"
    unfolding g a [symmetric] by (rule length_filter_le)
  have c: "length (generate_combinations st pl) = ?n
        \<longleftrightarrow> (\<forall>t \<in> set ?raw. 0 < fst t \<and> fst t \<le> budget st)"
    unfolding g a [symmetric]
    by (simp add: length_filter_eq_iff affordable_def conj_commute)
  have d: "distinct (dict_keys (similarity_results st))
        \<longrightarrow> candidate_lists st = map snd (similarity_results st)"
    by (simp add: candidate_lists_distinct)
  have e: "length ?raw = 9"
    if "similarity_results st = [(a, xs), (b, ys)]" "a \<noteq> b" "length xs = 3" "length ys = 3"
    for a xs b ys
    using that unfolding a by (simp add: candidate_lists_def dict_keys_def dict_get_def)
  from a b c d e show ?thesis by blast
qed

theorem C2_combination_counts_witness:
  "list_all (\<lambda>t. 0 < fst t \<and> fst t \<le> budget scenario_C)
     (raw_combinations scenario_C prices_C)
   \<and> distinct (dict_keys (similarity_results scenario_C))
   \<and> (similarity_results scenario_C = [(''sofa'', sofas_C), (''table'', tables_C)]
        \<and> ''sofa'' \<noteq> ''table'' \<and> length sofas_C = 3 \<and> length tables_C = 3)
   \<and> length (raw_combinations scenario_C prices_C) = 9
   \<and> length (generate_combinations scenario_C prices_C) = 9
   \<and> prod_list (map length (candidate_lists scenario_C)) = 9
   \<and> candidate_lists scenario_C = map snd (similarity_results scenario_C)"
proof -
  have h1: "list_all (\<lambda>t. 0 < fst t \<and> fst t \<le> budget scenario_C)
     (raw_combinations scenario_C prices_C)"
    by code_simp
  have h2: "distinct (dict_keys (similarity_results scenario_C))"
    by code_simp
  have h3: "similarity_results scenario_C = [(''sofa'', sofas_C), (''table'', tables_C)]
        \<and> ''sofa'' \<noteq> ''table'' \<and> length sofas_C = 3 \<and> length tables_C = 3"
    by (simp add: scenario_C_def sofas_C_def tables_C_def)
  from C2_combination_counts [of scenario_C prices_C] h1 h2 h3 show ?thesis
    by (simp add: list_all_iff del: product_lists.simps)
qed

lemma pick_Cons: "pick (xs # xss) (n # ns) = xs ! n # pick xss ns"
  by (simp add: pick_def)

lemma product_lists_pick: "product_lists xss = map (pick xss) (positions xss)"
proof (induction xss)
  case Nil
  then show ?case by (simp add: positions_def pick_def)
next
  case (Cons xs xss)
  have "map (pick (xs # xss)) (positions (xs # xss))
      = concat (map (\<lambda>n. map (\<lambda>ns. xs ! n # pick xss ns) (positions xss)) [0..<length xs])"
    by (simp add: positions_def map_concat comp_def pick_Cons del: upt.simps)
  also have "\<dots> = concat (map (\<lambda>n. map ((#) (xs ! n)) (product_lists xss)) [0..<length xs])"
    by (simp add: Cons.IH comp_def)
  also have "\<dots> = concat (map (\<lambda>x. map ((#) x) (product_lists xss)) (map ((!) xs) [0..<length xs]))"
    by (simp add: comp_def)
  also have "\<dots> = product_lists (xs # xss)"
    by (simp only: map_nth product_lists.simps)
  finally show ?case by simp
qed

lemma sorted_blocks:
  assumes "sorted_wrt (<) ns" and "sorted_wrt earlier P"
  shows "sorted_wrt earlier (concat (map (\<lambda>n. map ((#) n) P) ns))"
  using assms(1)
proof (induction ns)
  case Nil
  then show ?case by simp
next
  case (Cons n ns)
  have 1: "sorted_wrt earlier (map ((#) n) P)"
    using assms(2) by (simp add: sorted_wrt_map earlier_def [abs_def])
  have 2: "sorted_wrt earlier (concat (map (\<lambda>n. map ((#) n) P) ns))"
    using Cons by simp
  have 3: "earlier a b" if "a \<in> set (map ((#) n) P)"
      "b \<in> set (concat (map (\<lambda>n. map ((#) n) P) ns))" for a b
    using that Cons.prems by (auto simp: earlier_def)
  from 1 2 3 show ?case by (simp add: sorted_wrt_append)
qed

lemma positions_sorted: "sorted_wrt earlier (positions xss)"
proof (induction xss)
  case Nil
  then show ?case by (simp add: positions_def)
next
  case (Cons xs xss)
  have "sorted_wrt (<) [0..<length xs]" by (simp add: sorted_wrt_upt)
  from sorted_blocks [OF this Cons.IH] show ?case
    by (simp add: positions_def del: upt.simps)
qed

lemma sorted_desc_sort:
  "sorted_wrt (\<lambda>a b. total_similarity a \<ge> total_similarity b) (sort_by_similarity cs)"
proof -
  have "sorted (map (\<lambda>c. - total_similarity c) (sort_by_similarity cs))"
    unfolding sort_by_similarity_def by (rule sorted_sort_key)
  then show ?thesis by (simp add: sorted_wrt_map)
qed

text \<open>
  C3. The returned list is non-increasing in total similarity, and the sort is stable: for
  every value of the total similarity, the combinations with that value appear in the
  result in the order in which the loop appended them. The loop appends them in the
  order in which \<^verbatim>\<open>itertools.product\<close> enumerates the tuples, and that order is
  lexicographic in the candidates' positions: the first category's position first, then
  the next category's.
\<close>

theorem C3_sorted_and_stable:
  "sorted_wrt (\<ge>) (map total_similarity (generate_combinations st pl))
   \<and> (\<forall>k. filter (\<lambda>c. total_similarity c = k) (generate_combinations st pl)
          = filter (\<lambda>c. total_similarity c = k) (within_budget st pl))
   \<and> within_budget st pl
       = map (emit st) (filter (affordable st)
           (map (evaluate st pl) (product_lists (candidate_lists st))))
   \<and> product_lists (candidate_lists st)
       = map (pick (candidate_lists st)) (positions (candidate_lists st))
   \<and> sorted_wrt earlier (positions (candidate_lists st))"
proof -
  have a: "sorted_wrt (\<ge>) (map total_similarity (generate_combinations st pl))"
    using sorted_desc_sort [of "within_budget st pl"]
    by (simp add: generate_combinations_def sorted_wrt_map)
  have b: "filter (\<lambda>c. total_similarity c = k) (generate_combinations st pl)
          = filter (\<lambda>c. total_similarity c = k) (within_budget st pl)" for k
    using sort_key_stable [of "\<lambda>c. - total_similarity c" "- k" "within_budget st pl"]
    by (simp add: generate_combinations_def sort_by_similarity_def)
  have c: "within_budget st pl
       = map (emit st) (filter (affordable st)
           (map (evaluate st pl) (product_lists (candidate_lists st))))"
    by (simp add: within_budget_eq raw_combinations_def)
  have d: "product_lists (candidate_lists st)
       = map (pick (candidate_lists st)) (positions (candidate_lists st))"
    by (rule product_lists_pick)
  have e: "sorted_wrt earlier (positions (candidate_lists st))"
    by (rule positions_sorted)
  from a b c d e show ?thesis by blast
qed

text \<open>
  C4. Scenario A: the result is the single combination of S1 and T1, with total price 1500,
  total similarity 1.6 and, in the rows written, combination rank 1; the tuple (S2, T1) is
  evaluated at 1700, which exceeds the budget of 1600.
\<close>

theorem C4_scenario_A:
  "generate_combinations scenario_A prices_A =
     [\<lparr>total_price = 1500, total_similarity = 16 / 10,
       items =
         [\<lparr>catalog_number = ''S1'', similarity_score = 9 / 10, rank = 1,
           furniture_type = ''sofa'', price = 1000\<rparr>,
          \<lparr>catalog_number = ''T1'', similarity_score = 7 / 10, rank = 1,
           furniture_type = ''table'', price = 500\<rparr>],
       budget_remaining = 100\<rparr>]
   \<and> map combination_rank
        (save_combinations_to_csv (generate_combinations scenario_A prices_A)) = [1, 1]
   \<and> map (\<lambda>t. (fst t, map catalog_number (snd (snd t))))
        (raw_combinations scenario_A prices_A)
       = [(1500, [''S1'', ''T1'']), (1700, [''S2'', ''T1''])]
   \<and> \<not> 1700 \<le> budget scenario_A"
  by code_simp

section \<open>Candidates without a price\<close>

lemma dict_get_missing: "k \<notin> set (dict_keys d) \<Longrightarrow> dict_get d k dflt = dflt"
  by (simp add: dict_get_def dict_keys_def map_of_eq_None_iff [THEN iffD2])

lemma sum_list_known:
  "sum_list (map (\<lambda>c. dict_get pl (catalog_number c) 0) combo)
     = sum_list (map (\<lambda>c. dict_get pl (catalog_number c) 0) (filter (known pl) combo))"
  by (induction combo) (auto simp: known_def dict_get_missing)

lemma length_candidate_lists:
  "length (candidate_lists st) = length (dict_keys (similarity_results st))"
  by (simp add: candidate_lists_def)

lemma tuple_length:
  "combo \<in> set (product_lists (candidate_lists st)) \<Longrightarrow>
     length combo = length (dict_keys (similarity_results st))"
  by (simp add: in_set_product_lists_length length_candidate_lists)

lemma evaluate_total:
  assumes "combo \<in> set (product_lists (candidate_lists st))"
  shows "fst (evaluate st pl combo)
           = sum_list (map (\<lambda>c. dict_get pl (catalog_number c) 0) combo)"
proof -
  let ?keys = "dict_keys (similarity_results st)"
  have "map (\<lambda>z. dict_get pl (catalog_number (snd z)) 0) (zip ?keys combo)
       = map (\<lambda>c. dict_get pl (catalog_number c) 0) (map snd (zip ?keys combo))"
    by simp
  also have "\<dots> = map (\<lambda>c. dict_get pl (catalog_number c) 0) combo"
    using tuple_length [OF assms] by (simp only: map_snd_zip)
  finally show ?thesis by (simp add: evaluate_eq)
qed

lemma evaluate_items:
  "it \<in> set (snd (snd (evaluate st pl combo))) \<Longrightarrow>
     price it = dict_get pl (catalog_number it) 0"
  by (auto simp: evaluate_eq resolve_def)

text \<open>
  C9. In the enumeration a candidate whose catalog number is not in the price dictionary
  gets price 0. The total price of a tuple is therefore the sum of the prices of its
  priced candidates only. The tuple is emitted whenever that sum is strictly between 0 and
  the budget, and a tuple none of whose candidates is priced has total 0 and is rejected.
\<close>

theorem C9_missing_price_is_zero:
  assumes "combo \<in> set (product_lists (candidate_lists st))"
  shows "(\<forall>it \<in> set (snd (snd (evaluate st pl combo))).
            catalog_number it \<notin> set (dict_keys pl) \<longrightarrow> price it = 0)
     \<and> fst (evaluate st pl combo)
         = sum_list (map (\<lambda>c. dict_get pl (catalog_number c) 0) (filter (known pl) combo))
     \<and> (0 < sum_list (map (\<lambda>c. dict_get pl (catalog_number c) 0) (filter (known pl) combo))
        \<and> sum_list (map (\<lambda>c. dict_get pl (catalog_number c) 0) (filter (known pl) combo))
            < budget st
        \<longrightarrow> emit st (evaluate st pl combo) \<in> set (generate_combinations st pl))
     \<and> ((\<forall>c \<in> set combo. \<not> known pl c)
        \<longrightarrow> fst (evaluate st pl combo) = 0
            \<and> emit st (evaluate st pl combo) \<notin> set (generate_combinations st pl))"
proof -
  let ?s = "sum_list (map (\<lambda>c. dict_get pl (catalog_number c) 0) (filter (known pl) combo))"
  have a: "\<forall>it \<in> set (snd (snd (evaluate st pl combo))).
            catalog_number it \<notin> set (dict_keys pl) \<longrightarrow> price it = 0"
    by (auto simp: evaluate_items dict_get_missing)
  have b: "fst (evaluate st pl combo) = ?s"
    using evaluate_total [OF assms] sum_list_known by simp
  have raw: "evaluate st pl combo \<in> set (raw_combinations st pl)"
    using assms by (simp add: raw_combinations_def)
  have c: "emit st (evaluate st pl combo) \<in> set (generate_combinations st pl)"
    if "0 < ?s" "?s < budget st"
    using that raw b by (auto simp: set_generate_combinations affordable_def)
  have d: "fst (evaluate st pl combo) = 0
            \<and> emit st (evaluate st pl combo) \<notin> set (generate_combinations st pl)"
    if "\<forall>c \<in> set combo. \<not> known pl c"
  proof -
    have "filter (known pl) combo = []" using that by (simp add: filter_empty_conv)
    then have z: "fst (evaluate st pl combo) = 0" using b by simp
    have "total_price (emit st (evaluate st pl combo)) = 0" using z by (simp add: emit_def)
    then have "emit st (evaluate st pl combo) \<notin> set (generate_combinations st pl)"
      by (auto simp: set_generate_combinations affordable_def emit_def)
    with z show ?thesis by simp
  qed
  from a b c d show ?thesis by blast
qed

theorem C9_missing_price_is_zero_witness:
  "[S1, T1] \<in> set (product_lists (candidate_lists scenario_gap))
   \<and> [S2, T1] \<in> set (product_lists (candidate_lists scenario_gap))
   \<and> \<not> known prices_gap T1
   \<and> map price (snd (snd (evaluate scenario_gap prices_gap [S1, T1]))) = [1000, 0]
   \<and> sum_list (map (\<lambda>c. dict_get prices_gap (catalog_number c) 0)
        (filter (known prices_gap) [S1, T1])) = 1000
   \<and> (0::rat) < 1000 \<and> 1000 < budget scenario_gap
   \<and> emit scenario_gap (evaluate scenario_gap prices_gap [S1, T1])
        \<in> set (generate_combinations scenario_gap prices_gap)
   \<and> total_price (emit scenario_gap (evaluate scenario_gap prices_gap [S1, T1])) = 1000
   \<and> list_all (\<lambda>c. \<not> known prices_gap c) [S2, T1]
   \<and> fst (evaluate scenario_gap prices_gap [S2, T1]) = 0
   \<and> emit scenario_gap (evaluate scenario_gap prices_gap [S2, T1])
        \<notin> set (generate_combinations scenario_gap prices_gap)"
proof -
  have h1: "[S1, T1] \<in> set (product_lists (candidate_lists scenario_gap))" by code_simp
  have h2: "[S2, T1] \<in> set (product_lists (candidate_lists scenario_gap))" by code_simp
  have k: "\<not> known prices_gap T1" by code_simp
  have p: "map price (snd (snd (evaluate scenario_gap prices_gap [S1, T1]))) = [1000, 0]"
    by code_simp
  have s: "sum_list (map (\<lambda>c. dict_get prices_gap (catalog_number c) 0)
        (filter (known prices_gap) [S1, T1])) = 1000" by code_simp
  have b: "(0::rat) < 1000 \<and> 1000 < budget scenario_gap" by code_simp
  have t: "total_price (emit scenario_gap (evaluate scenario_gap prices_gap [S1, T1])) = 1000"
    by code_simp
  have m: "list_all (\<lambda>c. \<not> known prices_gap c) [S2, T1]" by code_simp
  have m': "\<forall>c \<in> set [S2, T1]. \<not> known prices_gap c" using m by (simp only: list_all_iff)
  from C9_missing_price_is_zero [OF h1, of prices_gap] s b
  have e1: "emit scenario_gap (evaluate scenario_gap prices_gap [S1, T1])
        \<in> set (generate_combinations scenario_gap prices_gap)" by simp
  from C9_missing_price_is_zero [OF h2, of prices_gap] m'
  have e2: "fst (evaluate scenario_gap prices_gap [S2, T1]) = 0
   \<and> emit scenario_gap (evaluate scenario_gap prices_gap [S2, T1])
        \<notin> set (generate_combinations scenario_gap prices_gap)" by blast
  from h1 h2 k p s b t m e1 e2 show ?thesis by blast
qed

section \<open>The estimator\<close>

















section \<open>The enumeration on cells\<close>




text \<open>On a store of numbers the enumeration on cells is \<open>generate_combinations\<close>.\<close>

lemma product_lists_map: "product_lists (map (map f) xss) = map (map f) (product_lists xss)"
  by (induction xss) (simp_all add: map_concat comp_def)

lemma dict_get_map:
  "dict_get (map (\<lambda>(k, v). (k, f v)) d) k (f dflt) = f (dict_get d k dflt)"
  by (induction d) (auto simp: dict_get_def)

lemma candidate_lists_as_cells:
  "candidate_lists (as_cells st) = map (map num_candidate) (candidate_lists st)"
proof -
  have k: "dict_keys (similarity_results (as_cells st)) = dict_keys (similarity_results st)"
    by (simp add: as_cells_def dict_keys_def comp_def case_prod_beta)
  have "dict_get (similarity_results (as_cells st)) ft []
          = map num_candidate (dict_get (similarity_results st) ft [])" for ft
    using dict_get_map [of "map num_candidate" "similarity_results st" ft "[]"]
    by (simp add: as_cells_def)
  then show ?thesis by (simp add: candidate_lists_def k)
qed

lemma num_candidate_fields:
  "catalog_number (num_candidate c) = catalog_number c"
  "similarity_score (num_candidate c) = Num (similarity_score c)"
  "rank (num_candidate c) = rank c"
  by (simp_all add: num_candidate_def)

lemma budget_as_cells: "budget (as_cells st) = budget st"
  by (simp add: as_cells_def)

lemma accumulate_cells_num:
  "accumulate_cells pl (map (\<lambda>(ft, c). (ft, num_candidate c)) zs) acc
     = Some (accumulate pl zs acc)"
proof (induction zs arbitrary: acc)
  case Nil
  then show ?case by simp
next
  case (Cons z zs)
  obtain ft c where z: "z = (ft, c)" by (cases z)
  obtain tp ts ds where a: "acc = (tp, ts, ds)" by (cases acc)
  show ?case by (simp add: z a Cons.IH num_candidate_fields Let_def)
qed

lemma evaluate_cells_num:
  "evaluate_cells (as_cells st) pl (map num_candidate combo) = Some (evaluate st pl combo)"
proof -
  have "zip (dict_keys (similarity_results st)) (map num_candidate combo)
        = map (\<lambda>(ft, c). (ft, num_candidate c)) (zip (dict_keys (similarity_results st)) combo)"
    by (simp add: zip_map2)
  moreover have "dict_keys (similarity_results (as_cells st)) = dict_keys (similarity_results st)"
    by (simp add: as_cells_def dict_keys_def comp_def case_prod_beta)
  ultimately show ?thesis
    by (simp add: evaluate_cells_def evaluate_def accumulate_cells_num)
qed

lemma enumerate_cells_num:
  "enumerate_cells (as_cells st) pl (map (map num_candidate) combos) acc
     = Some (enumerate_loop st pl combos acc)"
  by (induction combos arbitrary: acc)
     (auto simp: evaluate_cells_num budget_as_cells split: prod.splits)

lemma generate_cells_num:
  "generate_combinations_cells (as_cells st) pl = generate_combinations st pl"
  by (simp add: generate_combinations_cells_def generate_combinations_def within_budget_def
                candidate_lists_as_cells product_lists_map enumerate_cells_num)

section \<open>Loading and the run as a whole\<close>

lemma set_unique_from: "set (unique_from seen xs) = set xs - set seen"
  by (induction xs arbitrary: seen) auto

lemma set_unique: "set (unique xs) = set xs"
  by (simp add: unique_def set_unique_from)

lemma unique_nonempty: "xs \<noteq> [] \<Longrightarrow> unique xs \<noteq> []"
  using set_unique [of xs] by (metis set_empty)

lemma set_update_subset: "set (AList.update k v al) \<subseteq> insert (k, v) (set al)"
  by (induction al) auto

lemma taken_rows_length:
  assumes "Some name \<in> image_name ` set (rows df)"
  shows "1 \<le> length (take 3 (filter (\<lambda>r. image_name r = Some name) (rows df)))
       \<and> length (take 3 (filter (\<lambda>r. image_name r = Some name) (rows df))) \<le> 3"
proof -
  have "filter (\<lambda>r. image_name r = Some name) (rows df) \<noteq> []"
    using assms by (auto simp: filter_empty_conv)
  then have "1 \<le> length (filter (\<lambda>r. image_name r = Some name) (rows df))"
    by (simp add: Suc_leI)
  then show ?thesis by simp
qed

lemma load_loop_ok:
  assumes "set names \<subseteq> image_name ` set (rows df)"
  shows "fst (load_loop df names res)
           \<longleftrightarrow> None \<notin> set names \<and> (names = [] \<or> has_candidate_columns df)"
  using assms
proof (induction names arbitrary: res)
  case Nil
  then show ?case by simp
next
  case (Cons n rest)
  show ?case
  proof (cases n)
    case None
    then show ?thesis by simp
  next
    case (Some name)
    have "Some name \<in> image_name ` set (rows df)" using Cons.prems Some by simp
    from taken_rows_length [OF this]
    have ne: "take 3 (filter (\<lambda>r. image_name r = Some name) (rows df)) \<noteq> []" by auto
    have sub: "set rest \<subseteq> image_name ` set (rows df)" using Cons.prems by simp
    show ?thesis
    proof (cases "has_candidate_columns df")
      case True
      then show ?thesis using Cons.IH [OF sub] ne Some by (simp add: Let_def)
    next
      case False
      then show ?thesis using ne Some by (simp add: Let_def)
    qed
  qed
qed

lemma load_loop_entries:
  "load_loop df names res = (True, store) \<Longrightarrow> (ft, its) \<in> set store \<Longrightarrow>
     (ft, its) \<in> set res
     \<or> (\<exists>name. Some name \<in> set names
           \<and> its = map row_candidate
                     (take 3 (filter (\<lambda>r. image_name r = Some name) (rows df))))"
proof (induction df names res rule: load_loop.induct)
  case (1 df results)
  then show ?case by simp
next
  case (2 df rest results)
  then show ?case by simp
next
  case (3 df name rest results)
  let ?taken = "take 3 (filter (\<lambda>r. image_name r = Some name) (rows df))"
  let ?res = "AList.update (furniture_type_of name) (map row_candidate ?taken) results"
  from "3.prems"(1) have ok: "\<not> (?taken \<noteq> [] \<and> \<not> has_candidate_columns df)"
    and l: "load_loop df rest ?res = (True, store)"
    by (auto simp: Let_def split: if_splits)
  from "3.IH" [OF refl ok l "3.prems"(2)]
  consider "(ft, its) \<in> set ?res"
    | "\<exists>n. Some n \<in> set rest
           \<and> its = map row_candidate (take 3 (filter (\<lambda>r. image_name r = Some n) (rows df)))"
    by blast
  then show ?case
  proof cases
    case 1
    then have "(ft, its) = (furniture_type_of name, map row_candidate ?taken)
               \<or> (ft, its) \<in> set results"
      using set_update_subset by fastforce
    then show ?thesis by auto
  next
    case 2
    then show ?thesis by auto
  qed
qed

lemma load_loop_nonempty:
  "load_loop df names res = (True, store) \<Longrightarrow> names \<noteq> [] \<or> res \<noteq> [] \<Longrightarrow> store \<noteq> []"
proof (induction df names res rule: load_loop.induct)
  case (1 df results)
  then show ?case by simp
next
  case (2 df rest results)
  then show ?case by simp
next
  case (3 df name rest results)
  let ?taken = "take 3 (filter (\<lambda>r. image_name r = Some name) (rows df))"
  let ?res = "AList.update (furniture_type_of name) (map row_candidate ?taken) results"
  from "3.prems"(1) have ok: "\<not> (?taken \<noteq> [] \<and> \<not> has_candidate_columns df)"
    and l: "load_loop df rest ?res = (True, store)"
    by (auto simp: Let_def split: if_splits)
  show ?case by (rule "3.IH" [OF refl ok l]) simp
qed

lemma none_notin_image: "None \<notin> f ` A \<longleftrightarrow> (\<forall>x \<in> A. f x \<noteq> None)"
  by force

lemma load_ok_iff:
  "fst (load_similarity_results file st0) \<longleftrightarrow> (\<exists>df. file = Frame df \<and> well_formed df)"
proof (cases "file")
  case NoFile
  then show ?thesis by (simp add: load_similarity_results_def)
next
  case Unreadable
  then show ?thesis by (simp add: load_similarity_results_def)
next
  case (Frame df)
  let ?names = "unique (map image_name (rows df))"
  have sub: "set ?names \<subseteq> image_name ` set (rows df)" by (simp add: set_unique)
  have l: "fst (load_loop df ?names [])
           \<longleftrightarrow> None \<notin> set ?names \<and> (?names = [] \<or> has_candidate_columns df)"
    by (rule load_loop_ok [OF sub])
  have n: "None \<notin> set ?names \<longleftrightarrow> list_all (\<lambda>r. image_name r \<noteq> None) (rows df)"
    by (simp add: set_unique list_all_iff none_notin_image)
  have e: "?names = [] \<longleftrightarrow> rows df = []"
    using unique_nonempty [of "map image_name (rows df)"] by (auto simp: unique_def)
  show ?thesis
    using l n e
    by (auto simp: Frame load_similarity_results_def df_empty_def well_formed_def
             split: prod.splits)
qed

lemma load_ok_store:
  assumes "load_similarity_results file st0 = (True, st)"
  shows "budget st = budget st0"
    and "similarity_results st \<noteq> []"
    and "(ft, its) \<in> set (similarity_results st) \<Longrightarrow> 1 \<le> length its \<and> length its \<le> 3"
proof -
  from assms obtain df store where df: "file = Frame df" "\<not> df_empty df"
    and l: "load_loop df (unique (map image_name (rows df))) [] = (True, store)"
    and st: "st = st0\<lparr>similarity_results := store\<rparr>"
    by (auto simp: load_similarity_results_def
             split: results_file.splits if_splits prod.splits)
  show "budget st = budget st0" by (simp add: st)
  have "unique (map image_name (rows df)) \<noteq> []"
    using df(2) by (simp add: unique_nonempty df_empty_def)
  then show "similarity_results st \<noteq> []"
    using load_loop_nonempty [OF l] by (simp add: st)
  show "1 \<le> length its \<and> length its \<le> 3" if "(ft, its) \<in> set (similarity_results st)"
  proof -
    from that load_loop_entries [OF l, of ft its] obtain name
      where n: "Some name \<in> set (unique (map image_name (rows df)))"
        and i: "its = map row_candidate
                        (take 3 (filter (\<lambda>r. image_name r = Some name) (rows df)))"
      by (auto simp: st)
    from n have "Some name \<in> image_name ` set (rows df)" by (simp add: set_unique)
    from taken_rows_length [OF this] show ?thesis by (simp add: i)
  qed
qed






lemma main_not_loaded:
  assumes "q \<noteq> 0" and "\<not> fst (load_similarity_results file (fresh q b))"
  shows "main (Some (q, b)) file catalog =
           \<lparr>message = ''Failed to load similarity results'',
            status_written = None, csv_written = None\<rparr>"
proof -
  obtain ok st where l: "load_similarity_results file (fresh q b) = (ok, st)"
    by (cases "load_similarity_results file (fresh q b)")
  with assms(2) have "load_similarity_results file (fresh q b) = (False, st)" by simp
  then show ?thesis using assms(1) by (simp add: main_def fresh_def)
qed

lemma process_query_images_skip:
  "process_query_images (found @ (name, []) # found') results
     = process_query_images (found @ found') results"
  by (induction found arbitrary: results) auto




text \<open>
  C7, as the loader behaves. Loading succeeds exactly on a frame that has rows and the
  columns the loader reads, with a string in every image name cell; in every other case
  it returns \<^verbatim>\<open>False\<close> and \<^verbatim>\<open>main\<close> stops with "Failed to load similarity results" and
  nothing written. After a successful load there is at least one category and each has
  between one and three candidates. An image for which the search found no candidate
  leaves no trace in the results that are written to the file.
\<close>

theorem C7_load_failures:
  "(fst (load_similarity_results csv init) \<longleftrightarrow> (\<exists>df. csv = Frame df \<and> well_formed df))
   \<and> (q \<noteq> 0 \<and> \<not> fst (load_similarity_results csv (fresh q b))
       \<longrightarrow> main (Some (q, b)) csv catalog
            = \<lparr>message = ''Failed to load similarity results'',
               status_written = None, csv_written = None\<rparr>)
   \<and> (fst (load_similarity_results csv init)
       \<longrightarrow> similarity_results (snd (load_similarity_results csv init)) \<noteq> []
           \<and> (\<forall>(ft, its) \<in> set (similarity_results (snd (load_similarity_results csv init))).
                 1 \<le> length its \<and> length its \<le> 3))
   \<and> process_query_images (found @ (name, []) # found') results
       = process_query_images (found @ found') results"
proof -
  have a: "fst (load_similarity_results csv init) \<longleftrightarrow> (\<exists>df. csv = Frame df \<and> well_formed df)"
    by (rule load_ok_iff)
  have b: "main (Some (q, b)) csv catalog
            = \<lparr>message = ''Failed to load similarity results'',
               status_written = None, csv_written = None\<rparr>"
    if "q \<noteq> 0" "\<not> fst (load_similarity_results csv (fresh q b))"
    using that by (rule main_not_loaded)
  have c: "similarity_results (snd (load_similarity_results csv init)) \<noteq> []
           \<and> (\<forall>(ft, its) \<in> set (similarity_results (snd (load_similarity_results csv init))).
                 1 \<le> length its \<and> length its \<le> 3)"
    if "fst (load_similarity_results csv init)"
  proof -
    obtain ok st' where p: "load_similarity_results csv init = (ok, st')"
      by (cases "load_similarity_results csv init")
    with that have l: "load_similarity_results csv init = (True, st')" by simp
    show ?thesis
      using load_ok_store(2,3) [OF l] by (auto simp: l)
  qed
  have d: "process_query_images (found @ (name, []) # found') results
       = process_query_images (found @ found') results"
    by (rule process_query_images_skip)
  from a b c d show ?thesis by blast
qed

theorem C7_load_failures_witness:
  "fst (load_similarity_results file_A (fresh 1 1600))
   \<and> file_A = Frame (save_results_to_csv (process_query_images found_A []))
   \<and> well_formed (save_results_to_csv (process_query_images found_A []))
   \<and> similarity_results (snd (load_similarity_results file_A (fresh 1 1600)))
       = [(''sofa'', sofas_A)]
   \<and> (1::int) \<noteq> 0
   \<and> \<not> fst (load_similarity_results (NoFile :: cell results_file) (fresh 1 1600))
   \<and> main (Some (1, 1600)) NoFile (Some catalog_A)
       = \<lparr>message = ''Failed to load similarity results'',
          status_written = None, csv_written = None\<rparr>
   \<and> process_query_images found_A []
       = process_query_images [hd found_A] []"
proof -
  have a: "fst (load_similarity_results file_A (fresh 1 1600))" by code_simp
  have f: "file_A = Frame (save_results_to_csv (process_query_images found_A []))"
    by (simp add: file_A_def)
  have w: "well_formed (save_results_to_csv (process_query_images found_A []))"
  proof -
    from C7_load_failures [where csv = file_A and init = "fresh 1 1600"] a
    obtain df where d: "file_A = Frame df" "well_formed df" by blast
    from d(1) f have "df = save_results_to_csv (process_query_images found_A [])"
      by (metis results_file.inject)
    with d(2) show ?thesis by simp
  qed
  have s: "similarity_results (snd (load_similarity_results file_A (fresh 1 1600)))
       = [(''sofa'', sofas_A)]" by code_simp
  have q: "(1::int) \<noteq> 0" by simp
  have n: "\<not> fst (load_similarity_results (NoFile :: cell results_file) (fresh 1 1600))"
    by code_simp
  have m: "main (Some (1, 1600)) NoFile (Some catalog_A)
       = \<lparr>message = ''Failed to load similarity results'',
          status_written = None, csv_written = None\<rparr>"
    using C7_load_failures [where csv = NoFile and q = 1 and b = 1600 and catalog = "Some catalog_A"] q n
    by blast
  have e: "found_A = [hd found_A] @ (''table_extracted_grayscale.png'', []) # []"
    by code_simp
  have p: "process_query_images found_A [] = process_query_images [hd found_A] []"
    using C7_load_failures [where found = "[hd found_A]" and name = "''table_extracted_grayscale.png''"
                and found' = "[]" and results = "[]" and csv = file_A]
    by (metis e append_Nil2)
  from a f w s q n m p show ?thesis by blast
qed

text \<open>
  The search found two sofas and no table. The file written from it loads, and the run
  succeeds with combinations of a sofa alone.
\<close>

theorem C7_missing_category_counterexample:
  "map (\<lambda>(name, similar_items). (name, length similar_items)) found_A
     = [(''sofa_extracted_grayscale.png'', 2), (''table_extracted_grayscale.png'', 0)]
   \<and> file_A = Frame (save_results_to_csv (process_query_images found_A []))
   \<and> load_similarity_results file_A (fresh 1 1600)
       = (True, (fresh 1 1600)\<lparr>similarity_results := [(''sofa'', sofas_A)]\<rparr>)
   \<and> message (main (Some (1, 1600)) file_A (Some catalog_A)) = ''SUCCESS!''
   \<and> status_written (main (Some (1, 1600)) file_A (Some catalog_A)) = Some ''yes''
   \<and> map_option (map (\<lambda>r. (furniture_type r, catalog_number r, combination_rank r)))
        (csv_written (main (Some (1, 1600)) file_A (Some catalog_A)))
       = Some [(''sofa'', ''S1'', 1), (''sofa'', ''S2'', 2)]"
  by code_simp

section \<open>Where the code departs from its documentation\<close>

text \<open>
  C5. S1 has rank 1 among the sofas of scenario A. The specification's formula, and the
  estimator when it is given the rank, put it at 2500, the top of the sofa range.
  \<^verbatim>\<open>_get_estimated_prices\<close> passes the 0-based position instead, and S1 is priced at
  3066.67.
\<close>

theorem C5_first_rank_estimate:
  "rank S1 = 1
   \<and> range_for ''sofa'' = (800, 2500)
   \<and> spec_estimated_price 800 2500 3 (rank S1) = 2500
   \<and> get_estimated_price_for_type ''sofa'' (rank S1) = 2500
   \<and> map_of (get_estimated_prices scenario_A) (catalog_number S1) = Some (306667 / 100)"
  by code_simp

text \<open>
  C6. The catalog prices S1 only. \<^verbatim>\<open>get_furniture_prices\<close> returns that one price, and
  the enumeration prices the table T1 at 0 rather than at the estimate of 1500 that the
  fallback path would give it; the combination of S1 and T1 is emitted at a total of 1000.
\<close>

theorem C6_unmatched_item_price:
  "get_furniture_prices scenario_gap (Some [(''S1'', Some 1000)]) = [(''S1'', 1000)]
   \<and> generate_combinations scenario_gap
        (get_furniture_prices scenario_gap (Some [(''S1'', Some 1000)]))
       = [\<lparr>total_price = 1000, total_similarity = 16 / 10,
           items =
             [\<lparr>catalog_number = ''S1'', similarity_score = 9 / 10, rank = 1,
               furniture_type = ''sofa'', price = 1000\<rparr>,
              \<lparr>catalog_number = ''T1'', similarity_score = 7 / 10, rank = 1,
               furniture_type = ''table'', price = 0\<rparr>],
           budget_remaining = 600\<rparr>]
   \<and> get_estimated_price_for_type ''table'' 0 = 1500
   \<and> map_of (get_estimated_prices scenario_gap) ''T1'' = Some 1500"
  by code_simp

end
